theory Spec2Isabelle
  imports Main
begin

section \<open>Time\<close>

text \<open>
  The repository works with naive \<^verbatim>\<open>datetime\<close> values. A \<^verbatim>\<open>datetime\<close> is modelled as
  the number of microseconds since \<^verbatim>\<open>datetime.min\<close> (midnight of 0001-01-01), a
  \<^verbatim>\<open>timedelta\<close> as a number of microseconds. \<^verbatim>\<open>datetime.now()\<close> is read once per call
  of \<^verbatim>\<open>get_data\<close> and passed in as \<open>now\<close>. The argument \<^verbatim>\<open>check_interval_days\<close> is
  passed in as the number of microseconds it amounts to.
\<close>

type_synonym datetime = int
type_synonym timedelta = int

definition datetime_min :: datetime where
  "datetime_min = 0"

definition days :: "int \<Rightarrow> timedelta" where
  "days n = n * 86400000000"

text \<open>\<^verbatim>\<open>t.replace(hour=0, minute=0, second=0, microsecond=0)\<close>\<close>

definition midnight :: "datetime \<Rightarrow> datetime" where
  "midnight t = t - t mod days 1"

text \<open>
  A \<^verbatim>\<open>datetime\<close> object read from text is naive or carries a UTC offset; Python refuses
  to subtract one kind from the other.
\<close>

datatype stamp = Naive datetime | Aware datetime

section \<open>Data frames\<close>

text \<open>
  A row carries the cell of its \<^verbatim>\<open>date\<close> column (\<open>None\<close> is pandas' \<^verbatim>\<open>NaT\<close>) and one
  value field. A frame either has no \<^verbatim>\<open>date\<close> column (\<open>Plain\<close>), or has one whose cells
  \<^verbatim>\<open>pd.to_datetime\<close> accepts (\<open>Dated\<close>; the cells are kept as the naive timestamps they
  parse to), or is a non-empty frame whose \<^verbatim>\<open>date\<close> column \<^verbatim>\<open>pd.to_datetime\<close> rejects
  (\<open>Unparsed\<close>; its rows are never read, since every path that meets one raises).
\<close>

type_synonym row = "datetime option \<times> int"

datatype frame = Plain "int list" | Dated "row list" | Unparsed

datatype error = OSError | ValueError | KeyError | TypeError | AttributeError
  | OverflowError | ConnectionError | LoaderError

text \<open>\<^verbatim>\<open>pd.DataFrame()\<close>\<close>

definition DataFrame :: frame where
  "DataFrame = Plain []"

text \<open>\<^verbatim>\<open>df.empty\<close>\<close>

fun df_empty :: "frame \<Rightarrow> bool" where
  "df_empty (Plain vs) = (vs = [])"
| "df_empty (Dated rs) = (rs = [])"
| "df_empty Unparsed = False"

fun ensure_date_format :: "frame \<Rightarrow> error + frame" where
  "ensure_date_format (Plain vs) = Inr (Plain vs)"
| "ensure_date_format (Dated rs) = Inr (Dated rs)"
| "ensure_date_format Unparsed = Inl ValueError"

text \<open>
  \<^verbatim>\<open>df['date'].max() if 'date' in df.columns else None\<close>, and the same with \<^verbatim>\<open>min\<close>.
  pandas skips \<^verbatim>\<open>NaT\<close> cells and answers \<^verbatim>\<open>NaT\<close> when there is no other cell. The
  callers only use the answer in \<^verbatim>\<open>x and x < y\<close>, which is false for Python's
  \<^verbatim>\<open>None\<close> and for \<^verbatim>\<open>NaT\<close> alike, so both are \<open>None\<close> here.
\<close>

definition stamps :: "row list \<Rightarrow> datetime list" where
  "stamps rs = List.map_filter fst rs"

fun date_max :: "frame \<Rightarrow> datetime option" where
  "date_max (Dated rs) = (case stamps rs of [] \<Rightarrow> None | t # ts \<Rightarrow> Some (Max (set (t # ts))))"
| "date_max (Plain vs) = None"
| "date_max Unparsed = None"

fun date_min :: "frame \<Rightarrow> datetime option" where
  "date_min (Dated rs) = (case stamps rs of [] \<Rightarrow> None | t # ts \<Rightarrow> Some (Min (set (t # ts))))"
| "date_min (Plain vs) = None"
| "date_min Unparsed = None"

subsection \<open>Merging\<close>

text \<open>
  \<^verbatim>\<open>pd.concat([df_existing, df_new])\<close>: the columns are united, and a row of a frame
  without \<^verbatim>\<open>date\<close> column gets \<^verbatim>\<open>NaT\<close> there.
\<close>

fun as_rows :: "frame \<Rightarrow> row list" where
  "as_rows (Dated rs) = rs"
| "as_rows (Plain vs) = map (Pair None) vs"
| "as_rows Unparsed = []"

fun concat_frames :: "frame \<Rightarrow> frame \<Rightarrow> frame" where
  "concat_frames (Plain vs) (Plain us) = Plain (vs @ us)"
| "concat_frames Unparsed df = Unparsed"
| "concat_frames df Unparsed = Unparsed"
| "concat_frames df df' = Dated (as_rows df @ as_rows df')"

text \<open>
  \<^verbatim>\<open>drop_duplicates(subset=['date'], keep='last')\<close>: of the rows with one date the last
  stays, in its place; \<^verbatim>\<open>NaT\<close> cells count as equal to one another.
\<close>

fun drop_duplicates_last :: "row list \<Rightarrow> row list" where
  "drop_duplicates_last [] = []"
| "drop_duplicates_last (r # rs) =
     (if fst r \<in> set (map fst rs) then drop_duplicates_last rs
      else r # drop_duplicates_last rs)"

text \<open>
  \<^verbatim>\<open>sort_values('date')\<close>: ascending, \<^verbatim>\<open>NaT\<close> last. The source sorts after dropping
  duplicates, so no two rows share a key and the order of equal keys plays no part.
\<close>

fun date_le :: "datetime option \<Rightarrow> datetime option \<Rightarrow> bool" where
  "date_le (Some a) (Some b) = (a \<le> b)"
| "date_le None (Some b) = False"
| "date_le d None = True"

fun insort_row :: "row \<Rightarrow> row list \<Rightarrow> row list" where
  "insort_row r [] = [r]"
| "insort_row r (s # rs) = (if date_le (fst r) (fst s) then r # s # rs else s # insort_row r rs)"

fun sort_values :: "row list \<Rightarrow> row list" where
  "sort_values [] = []"
| "sort_values (r # rs) = insort_row r (sort_values rs)"

text \<open>Lines 88 and 89: a frame without \<^verbatim>\<open>date\<close> column has no such key to drop duplicates by.\<close>

definition merge_frames :: "frame \<Rightarrow> frame \<Rightarrow> error + frame" where
  "merge_frames df_existing df_new =
     (case concat_frames df_existing df_new of
        Plain vs \<Rightarrow> Inl KeyError
      | Unparsed \<Rightarrow> Inl TypeError
      | Dated rs \<Rightarrow> Inr (Dated (sort_values (drop_duplicates_last rs))))"

section \<open>The local directory, the hub and the loader\<close>

text \<open>
  One call of \<^verbatim>\<open>get_data\<close> touches the data file of its \<^verbatim>\<open>filename\<close>, the sidecar
  \<^verbatim>\<open>filename.meta.json\<close>, and the copies of both in the hub dataset. A data file is text
  that \<^verbatim>\<open>pd.read_csv\<close> rejects (\<open>Corrupt\<close>) or the frame it reads to (writing a frame
  with \<^verbatim>\<open>to_csv\<close> and reading it back gives the frame). A sidecar is text from which
  \<^verbatim>\<open>last_checked\<close> cannot be read (\<open>Broken\<close>: no JSON, no such field, no ISO timestamp)
  or the timestamp it holds: a naive one (\<open>Meta\<close>), as \<^verbatim>\<open>_update_meta\<close> writes it, or one
  with a UTC offset (\<open>MetaAware\<close>). \<open>disk_ok\<close> tells whether writing to the local directory
  succeeds, \<open>hub_ok\<close> whether the hub answers. \<open>calls\<close> logs the requests made to the
  loader.
\<close>

datatype blob = Corrupt | Csv frame

datatype sidecar = Broken | Meta datetime | MetaAware datetime

text \<open>
  The \<^verbatim>\<open>start_date\<close> argument: \<^verbatim>\<open>None\<close> or an empty string (\<open>Unset\<close>, falsy), a value
  \<^verbatim>\<open>pd.to_datetime\<close> accepts, or one it rejects.
\<close>

datatype start = Unset | Start datetime | BadStart

record request =
  arg_start :: start
  arg_kwargs :: "(string \<times> string) list"

text \<open>\<^verbatim>\<open>loader.fetch_data\<close> raises, returns \<^verbatim>\<open>None\<close>, or returns a frame.\<close>

type_synonym loader = "request \<Rightarrow> error + frame option"

record world =
  data_file :: "blob option"
  meta_file :: "sidecar option"
  hub_data :: "blob option"
  hub_meta :: "sidecar option"
  disk_ok :: bool
  hub_ok :: bool
  calls :: "request list"

definition to_csv :: "frame \<Rightarrow> world \<Rightarrow> error + world" where
  "to_csv df w = (if disk_ok w then Inr (w\<lparr>data_file := Some (Csv df)\<rparr>) else Inl OSError)"

definition read_csv :: "world \<Rightarrow> error + frame" where
  "read_csv w =
     (case data_file w of None \<Rightarrow> Inl OSError | Some Corrupt \<Rightarrow> Inl ValueError
      | Some (Csv df) \<Rightarrow> Inr df)"

definition upload_data :: "world \<Rightarrow> error + world" where
  "upload_data w =
     (case data_file w of None \<Rightarrow> Inl OSError
      | Some b \<Rightarrow> if hub_ok w then Inr (w\<lparr>hub_data := Some b\<rparr>) else Inl ConnectionError)"

definition upload_meta :: "world \<Rightarrow> error + world" where
  "upload_meta w =
     (case meta_file w of None \<Rightarrow> Inl OSError
      | Some m \<Rightarrow> if hub_ok w then Inr (w\<lparr>hub_meta := Some m\<rparr>) else Inl ConnectionError)"

definition hf_hub_download_data :: "world \<Rightarrow> error + world" where
  "hf_hub_download_data w =
     (if \<not> hub_ok w then Inl ConnectionError
      else case hub_data w of None \<Rightarrow> Inl KeyError
        | Some b \<Rightarrow> if disk_ok w then Inr (w\<lparr>data_file := Some b\<rparr>) else Inl OSError)"

definition hf_hub_download_meta :: "world \<Rightarrow> error + world" where
  "hf_hub_download_meta w =
     (if \<not> hub_ok w then Inl ConnectionError
      else case hub_meta w of None \<Rightarrow> Inl KeyError
        | Some m \<Rightarrow> if disk_ok w then Inr (w\<lparr>meta_file := Some m\<rparr>) else Inl OSError)"

section \<open>DataRepository\<close>

definition update_meta :: "datetime \<Rightarrow> world \<Rightarrow> error + world" where
  "update_meta now w =
     (if disk_ok w then Inr (w\<lparr>meta_file := Some (Meta now)\<rparr>) else Inl OSError)"

text \<open>\<^verbatim>\<open>datetime.fromisoformat(json.load(f)['last_checked'])\<close>\<close>

fun read_last_checked :: "sidecar \<Rightarrow> error + stamp" where
  "read_last_checked Broken = Inl ValueError"
| "read_last_checked (Meta t) = Inr (Naive t)"
| "read_last_checked (MetaAware t) = Inr (Aware t)"

definition get_last_checked :: "world \<Rightarrow> stamp" where
  "get_last_checked w =
     (case meta_file w of None \<Rightarrow> Naive datetime_min
      | Some m \<Rightarrow>
          (case read_last_checked m of Inl e \<Rightarrow> Naive datetime_min | Inr t \<Rightarrow> t))"

definition pull_from_hub_data :: "world \<Rightarrow> bool \<times> world" where
  "pull_from_hub_data w =
     (case hf_hub_download_data w of Inl e \<Rightarrow> (False, w) | Inr w' \<Rightarrow> (True, w'))"

definition pull_from_hub_meta :: "world \<Rightarrow> bool \<times> world" where
  "pull_from_hub_meta w =
     (case hf_hub_download_meta w of Inl e \<Rightarrow> (False, w) | Inr w' \<Rightarrow> (True, w'))"

definition load_csv :: "world \<Rightarrow> frame" where
  "load_csv w =
     (case read_csv w of Inl e \<Rightarrow> DataFrame
      | Inr df \<Rightarrow> (case ensure_date_format df of Inl e \<Rightarrow> DataFrame | Inr df' \<Rightarrow> df'))"

definition push_meta_only :: "world \<Rightarrow> world" where
  "push_meta_only w = (case upload_meta w of Inl e \<Rightarrow> w | Inr w' \<Rightarrow> w')"

definition save_and_push :: "frame \<Rightarrow> datetime \<Rightarrow> world \<Rightarrow> world" where
  "save_and_push df now w =
     (case to_csv df w of Inl e \<Rightarrow> w
      | Inr w1 \<Rightarrow>
         (case update_meta now w1 of Inl e \<Rightarrow> w1
          | Inr w2 \<Rightarrow>
             (case upload_data w2 of Inl e \<Rightarrow> w2
              | Inr w3 \<Rightarrow> (case upload_meta w3 of Inl e \<Rightarrow> w3 | Inr w4 \<Rightarrow> w4))))"

definition fetch_data :: "loader \<Rightarrow> request \<Rightarrow> world \<Rightarrow> (error + frame option) \<times> world" where
  "fetch_data loader req w = (loader req, w\<lparr>calls := calls w @ [req]\<rparr>)"

definition fetch_and_save :: "loader \<Rightarrow> request \<Rightarrow> datetime \<Rightarrow> world \<Rightarrow> frame option \<times> world" where
  "fetch_and_save loader req now w =
     (case fetch_data loader req w of
        (Inl e, w1) \<Rightarrow> (Some DataFrame, w1)
      | (Inr None, w1) \<Rightarrow> (None, w1)
      | (Inr (Some df), w1) \<Rightarrow>
          if \<not> df_empty df then
            (case ensure_date_format df of
               Inl e \<Rightarrow> (Some DataFrame, w1)
             | Inr df' \<Rightarrow> (Some df', save_and_push df' now w1))
          else (Some df, w1))"

text \<open>\<^verbatim>\<open>kwargs_copy.pop('start_date', None)\<close>\<close>

definition pop_key :: "string \<Rightarrow> (string \<times> string) list \<Rightarrow> (string \<times> string) list" where
  "pop_key k kw = filter (\<lambda>(k', v). k' \<noteq> k) kw"

text \<open>\<^verbatim>\<open>pd.to_datetime(start_date).replace(tzinfo=None)\<close>\<close>

fun to_datetime :: "start \<Rightarrow> error + datetime" where
  "to_datetime (Start t) = Inr t"
| "to_datetime BadStart = Inl ValueError"
| "to_datetime Unset = Inl TypeError"

text \<open>Lines 61 to 64: whether the requested start asks for a full re-fetch.\<close>

definition backfill_due :: "start \<Rightarrow> frame \<Rightarrow> error + bool" where
  "backfill_due start_date df_existing =
     (if start_date \<noteq> Unset then
        (let current_min_date = date_min df_existing in
         case to_datetime start_date of
           Inl e \<Rightarrow> Inl e
         | Inr req_start \<Rightarrow>
             (case current_min_date of
                None \<Rightarrow> Inr False
              | Some mn \<Rightarrow> Inr (mn > req_start + days 5)))
      else Inr False)"

text \<open>Lines 75-76 and 103-104: record the check and return the cached frame.\<close>

definition touch :: "frame \<Rightarrow> datetime \<Rightarrow> world \<Rightarrow> (error + frame option) \<times> world" where
  "touch df_existing now w =
     (case update_meta now w of Inl e \<Rightarrow> (Inl e, w) | Inr w' \<Rightarrow> (Inr (Some df_existing), w'))"

text \<open>Lines 71 to 99.\<close>

definition incremental ::
  "loader \<Rightarrow> (string \<times> string) list \<Rightarrow> datetime \<Rightarrow> frame \<Rightarrow> datetime \<Rightarrow> world
     \<Rightarrow> (error + frame option) \<times> world" where
  "incremental loader kwargs now df_existing current_max_date w =
     (let next_day = current_max_date + days 1 in
      if next_day > now then touch df_existing now w
      else
        (case fetch_data loader
                \<lparr>arg_start = Start (midnight next_day),
                 arg_kwargs = pop_key ''start_date'' kwargs\<rparr> w of
           (Inl e, w1) \<Rightarrow> (Inl e, w1)
         | (Inr None, w1) \<Rightarrow> (Inl AttributeError, w1)
         | (Inr (Some df_new), w1) \<Rightarrow>
             if \<not> df_empty df_new then
               (case ensure_date_format df_new of
                  Inl e \<Rightarrow> (Inl e, w1)
                | Inr df_new' \<Rightarrow>
                    (case merge_frames df_existing df_new' of
                       Inl e \<Rightarrow> (Inl e, w1)
                     | Inr df_combined \<Rightarrow>
                         (Inr (Some df_combined), save_and_push df_combined now w1)))
             else
               (case update_meta now w1 of
                  Inl e \<Rightarrow> (Inl e, w1)
                | Inr w2 \<Rightarrow> (Inr (Some df_existing), push_meta_only w2))))"

text \<open>
  \<^verbatim>\<open>return self._fetch_and_save(filename, loader, meta_path, start_date=start_date, **kwargs)\<close>
  as \<^verbatim>\<open>get_data\<close> writes it on lines 36, 42 and 66. \<^verbatim>\<open>meta_path\<close> is passed by position,
  so a keyword argument of that name makes the call itself raise \<^verbatim>\<open>TypeError\<close>, outside
  the handler of \<^verbatim>\<open>_fetch_and_save\<close>. (The other parameter names of \<^verbatim>\<open>_fetch_and_save\<close>
  are parameters of \<^verbatim>\<open>get_data\<close> too and so never end up in \<^verbatim>\<open>kwargs\<close>.)
\<close>

definition full_fetch ::
  "loader \<Rightarrow> start \<Rightarrow> (string \<times> string) list \<Rightarrow> datetime \<Rightarrow> world
     \<Rightarrow> (error + frame option) \<times> world" where
  "full_fetch loader start_date kwargs now w =
     (if ''meta_path'' \<in> set (map fst kwargs) then (Inl TypeError, w)
      else
        (case fetch_and_save loader \<lparr>arg_start = start_date, arg_kwargs = kwargs\<rparr> now w of
           (r, w') \<Rightarrow> (Inr r, w')))"

text \<open>The body of the \<^verbatim>\<open>try\<close> block, lines 57 to 104.\<close>

definition refresh ::
  "loader \<Rightarrow> start \<Rightarrow> (string \<times> string) list \<Rightarrow> datetime \<Rightarrow> frame \<Rightarrow> world
     \<Rightarrow> (error + frame option) \<times> world" where
  "refresh loader start_date kwargs now df_existing w =
     (let current_max_date = date_max df_existing;
          today = midnight now
      in case backfill_due start_date df_existing of
           Inl e \<Rightarrow> (Inl e, w)
         | Inr True \<Rightarrow> full_fetch loader start_date kwargs now w
         | Inr False \<Rightarrow>
             (case current_max_date of
                None \<Rightarrow> touch df_existing now w
              | Some mx \<Rightarrow>
                  if mx < today - days 1
                  then incremental loader kwargs now df_existing mx w
                  else touch df_existing now w))"

text \<open>
  \<^verbatim>\<open>timedelta(days=check_interval_days)\<close>: the constructor raises \<^verbatim>\<open>OverflowError\<close> unless
  the day count lies between -999999999 and 999999999. (An argument that is no number of
  microseconds at all, such as a NaN, is not covered.)
\<close>

definition timedelta_days :: "int \<Rightarrow> error + timedelta" where
  "timedelta_days check_interval =
     (if - days 999999999 \<le> check_interval \<and> check_interval < days 1000000000
      then Inr check_interval else Inl OverflowError)"

text \<open>
  Line 48: \<^verbatim>\<open>datetime.now() - last_checked < timedelta(days=check_interval_days)\<close>. The
  subtraction comes first and raises \<^verbatim>\<open>TypeError\<close> when \<^verbatim>\<open>last_checked\<close> carries an
  offset. The line is not inside any \<^verbatim>\<open>try\<close>.
\<close>

definition cooldown_check :: "int \<Rightarrow> datetime \<Rightarrow> world \<Rightarrow> error + bool" where
  "cooldown_check check_interval now w =
     (case get_last_checked w of
        Aware t \<Rightarrow> Inl TypeError
      | Naive last_checked \<Rightarrow>
          (case timedelta_days check_interval of
             Inl e \<Rightarrow> Inl e
           | Inr interval \<Rightarrow> Inr (now - last_checked < interval)))"

text \<open>The check of line 48 comes out true: the call is inside the check interval.\<close>

definition in_cooldown :: "int \<Rightarrow> datetime \<Rightarrow> world \<Rightarrow> bool" where
  "in_cooldown check_interval now w = (cooldown_check check_interval now w = Inr True)"

text \<open>The check of line 48 comes out false: the check interval has passed.\<close>

definition cooldown_over :: "int \<Rightarrow> datetime \<Rightarrow> world \<Rightarrow> bool" where
  "cooldown_over check_interval now w = (cooldown_check check_interval now w = Inr False)"

text \<open>Lines 38 to 108: the data file is there.\<close>

definition from_cache ::
  "loader \<Rightarrow> int \<Rightarrow> start \<Rightarrow> (string \<times> string) list \<Rightarrow> datetime \<Rightarrow> world
     \<Rightarrow> (error + frame option) \<times> world" where
  "from_cache loader check_interval start_date kwargs now w =
     (let df_existing = load_csv w in
      if df_empty df_existing then full_fetch loader start_date kwargs now w
      else
        (case cooldown_check check_interval now w of
           Inl e \<Rightarrow> (Inl e, w)
         | Inr True \<Rightarrow> (Inr (Some df_existing), w)
         | Inr False \<Rightarrow>
             (case refresh loader start_date kwargs now df_existing w of
                (Inl e, w') \<Rightarrow> (Inr (Some df_existing), w')
              | (Inr r, w') \<Rightarrow> (Inr r, w'))))"

text \<open>
  \<^verbatim>\<open>get_data(filename, loader, check_interval_days, start_date, **kwargs)\<close>. The result is
  the exception that reaches the caller (\<open>Inl\<close>) or the value returned, \<^verbatim>\<open>None\<close> or a
  frame, together with the state left behind.
\<close>

definition get_data ::
  "loader \<Rightarrow> int \<Rightarrow> start \<Rightarrow> (string \<times> string) list \<Rightarrow> datetime \<Rightarrow> world
     \<Rightarrow> (error + frame option) \<times> world" where
  "get_data loader check_interval start_date kwargs now w =
     (if data_file w = None then
        (case pull_from_hub_data w of
           (True, w1) \<Rightarrow>
             from_cache loader check_interval start_date kwargs now (snd (pull_from_hub_meta w1))
         | (False, w1) \<Rightarrow> full_fetch loader start_date kwargs now w1)
      else from_cache loader check_interval start_date kwargs now w)"

section \<open>Notions used in the statements\<close>


text \<open>
  The local directory after lines 33 and 34 have pulled the data file, and the sidecar if
  the hub has one. (\<^verbatim>\<open>hf_hub_download\<close> is given \<^verbatim>\<open>DATA_DIR.parent\<close> as local directory and
  \<^verbatim>\<open>data/filename\<close> as name, and \<^verbatim>\<open>DATA_DIR\<close> is the directory \<^verbatim>\<open>data\<close>, so the copy
  lands where \<^verbatim>\<open>get_data\<close> looks for it.)
\<close>

definition recovered :: "world \<Rightarrow> world" where
  "recovered w =
     w\<lparr>data_file := hub_data w,
       meta_file := (case hub_meta w of None \<Rightarrow> meta_file w | Some m \<Rightarrow> Some m)\<rparr>"

text \<open>
  The invariant of section 3 of the specification: no two rows share a date and the dates
  ascend. A frame without dates has nothing to violate it; one whose dates cannot be
  read does not satisfy it.
\<close>

fun well_formed :: "frame \<Rightarrow> bool" where
  "well_formed (Dated rs) = (distinct (map fst rs) \<and> sorted_wrt date_le (map fst rs))"
| "well_formed (Plain vs) = True"
| "well_formed Unparsed = False"

text \<open>
  The calendar date of a timestamp, as a day number, and the calendar dates of the rows
  of a frame. \<^verbatim>\<open>_ensure_date_format\<close> parses the cells and strips the time zone; it does
  not reduce a timestamp to its day.
\<close>

definition date_of :: "datetime \<Rightarrow> int" where
  "date_of t = t div days 1"

definition dates :: "row list \<Rightarrow> int option list" where
  "dates rs = map (\<lambda>r. map_option date_of (fst r)) rs"

text \<open>Every date cell is a timestamp of day precision, that is a midnight, or \<^verbatim>\<open>NaT\<close>.\<close>

definition day_cells :: "row list \<Rightarrow> bool" where
  "day_cells rs = list_all (\<lambda>r. case fst r of None \<Rightarrow> True | Some t \<Rightarrow> midnight t = t) rs"


section \<open>Sample states\<close>

text \<open>
  A cache of two daily rows, checked a day after its last row; the hub holds nothing and
  both the disk and the hub work.
\<close>

definition cached_rows :: "row list" where
  "cached_rows = [(Some (days 100), 10), (Some (days 101), 11)]"

definition w_cached :: world where
  "w_cached =
     \<lparr>data_file = Some (Csv (Dated cached_rows)), meta_file = Some (Meta (days 102)),
      hub_data = None, hub_meta = None, disk_ok = True, hub_ok = True, calls = []\<rparr>"

text \<open>The same state without the data file.\<close>

definition w_absent :: world where
  "w_absent = w_cached\<lparr>data_file := None\<rparr>"

text \<open>Nothing local; the hub holds the cache and its sidecar.\<close>

definition w_hub :: world where
  "w_hub =
     \<lparr>data_file = None, meta_file = None,
      hub_data = Some (Csv (Dated cached_rows)), hub_meta = Some (Meta (days 102)),
      disk_ok = True, hub_ok = True, calls = []\<rparr>"

text \<open>Rows a loader may answer with: one date already cached, one new.\<close>

definition new_rows :: "row list" where
  "new_rows = [(Some (days 101), 99), (Some (days 102), 12)]"

text \<open>Rows a loader may answer a full fetch with.\<close>

definition full_rows :: "row list" where
  "full_rows = [(Some (days 2), 1), (Some (days 100), 10), (Some (days 101), 11)]"

text \<open>A cache of one row, and a row fetched for the same day at 16:00.\<close>

definition w_one_row :: world where
  "w_one_row = w_cached\<lparr>data_file := Some (Csv (Dated [(Some (days 100), 10)]))\<rparr>"

definition afternoon_rows :: "row list" where
  "afternoon_rows = [(Some (days 100 + 57600000000), 99)]"


section \<open>Unreadable and absent sidecars\<close>




















text \<open>
  Claim C2. When the data file exists, loads to a non-empty frame, and the time since
  \<^verbatim>\<open>last_checked\<close> is strictly less than the check interval, \<^verbatim>\<open>get_data\<close> returns the
  loaded frame and leaves the state as it was: no request reaches the loader and the
  sidecar is not written. A second call inside the interval, whatever its loader and
  arguments, therefore makes no request either and returns the same frame.
\<close>

theorem cooldown_short_circuit:
  assumes "data_file w = Some b" and "\<not> df_empty (load_csv w)"
    and "in_cooldown ci now w" and "in_cooldown ci now' w"
  shows "get_data loader ci sd kw now w = (Inr (Some (load_csv w)), w) \<and>
         calls (snd (get_data loader ci sd kw now w)) = calls w \<and>
         meta_file (snd (get_data loader ci sd kw now w)) = meta_file w \<and>
         get_data loader' ci sd' kw' now' (snd (get_data loader ci sd kw now w)) =
           (Inr (Some (load_csv w)), w)"
proof -
  have first: "get_data loader ci sd kw now w = (Inr (Some (load_csv w)), w)"
    using assms(1,2,3) by (simp add: get_data_def from_cache_def in_cooldown_def)
  have second: "get_data loader' ci sd' kw' now' w = (Inr (Some (load_csv w)), w)"
    using assms(1,2,4) by (simp add: get_data_def from_cache_def in_cooldown_def)
  show ?thesis
    by (simp add: first second)
qed

theorem cooldown_short_circuit_witness:
  "data_file w_cached = Some (Csv (Dated cached_rows)) \<and>
   \<not> df_empty (load_csv w_cached) \<and>
   in_cooldown (days 7) (days 103) w_cached \<and>
   in_cooldown (days 7) (days 108) w_cached \<and>
   get_data (\<lambda>r. Inl LoaderError) (days 7) (Start (days 1)) [] (days 103) w_cached =
     (Inr (Some (Dated cached_rows)), w_cached) \<and>
   get_data (\<lambda>r. Inr None) (days 7) Unset [] (days 108)
      (snd (get_data (\<lambda>r. Inl LoaderError) (days 7) (Start (days 1)) [] (days 103) w_cached)) =
     (Inr (Some (Dated cached_rows)), w_cached)"
proof -
  have f: "data_file w_cached = Some (Csv (Dated cached_rows))"
    by (simp add: w_cached_def)
  have l: "load_csv w_cached = Dated cached_rows"
    by (simp add: w_cached_def load_csv_def read_csv_def)
  have e: "\<not> df_empty (load_csv w_cached)"
    by (simp add: l cached_rows_def)
  have c1: "in_cooldown (days 7) (days 103) w_cached"
    by code_simp
  have c2: "in_cooldown (days 7) (days 108) w_cached"
    by code_simp
  note t = cooldown_short_circuit [OF f e c1 c2, of "\<lambda>r. Inl LoaderError" "Start (days 1)" "[]"
      "\<lambda>r. Inr None" Unset "[]", unfolded l]
  show ?thesis
    using t f e c1 c2 by blast
qed

section \<open>Merging cached and fetched rows\<close>

lemma date_le_total: "date_le a b \<or> date_le b a"
  by (cases a; cases b) auto

lemma date_le_trans: "date_le a b \<Longrightarrow> date_le b c \<Longrightarrow> date_le a c"
  by (cases a; cases b; cases c) auto

lemma keys_drop_duplicates_last: "set (map fst (drop_duplicates_last rs)) = set (map fst rs)"
  by (induction rs) auto

lemma distinct_drop_duplicates_last: "distinct (map fst (drop_duplicates_last rs))"
proof (induction rs)
  case Nil
  show ?case by simp
next
  case (Cons r rs)
  have "fst r \<notin> set (map fst rs) \<Longrightarrow> fst r \<notin> set (map fst (drop_duplicates_last rs))"
    using keys_drop_duplicates_last [of rs] by blast
  with Cons show ?case by simp
qed

lemma map_of_drop_duplicates_last: "map_of (drop_duplicates_last rs) = map_of (rev rs)"
proof (induction rs)
  case Nil
  show ?case by simp
next
  case (Cons r rs)
  show ?case
  proof (cases "fst r \<in> set (map fst rs)")
    case True
    then have "fst r \<in> dom (map_of (rev rs))"
      by (simp add: dom_map_of_conv_image_fst)
    then have "map_of [r] ++ map_of (rev rs) = map_of (rev rs)"
      by (auto simp: map_add_def fun_eq_iff split: option.splits)
    with True Cons show ?thesis by (simp add: map_of_append del: map_of.simps)
  next
    case False
    then have "map_of (rev rs) (fst r) = None"
      by (simp add: map_of_eq_None_iff)
    then have "map_of [r] ++ map_of (rev rs) = (map_of (rev rs))(fst r \<mapsto> snd r)"
      by (auto simp: map_add_def fun_eq_iff split: option.splits)
    with False Cons show ?thesis by (cases r) (simp add: map_of_append)
  qed
qed

lemma set_insort_row: "set (insort_row r rs) = insert r (set rs)"
  by (induction rs) auto

lemma set_sort_values: "set (sort_values rs) = set rs"
  by (induction rs) (auto simp: set_insort_row)

lemma sorted_insort_row:
  "sorted_wrt date_le (map fst rs) \<Longrightarrow> sorted_wrt date_le (map fst (insort_row r rs))"
proof (induction rs)
  case Nil
  show ?case by simp
next
  case (Cons s rs)
  show ?case
  proof (cases "date_le (fst r) (fst s)")
    case True
    with Cons.prems show ?thesis by (auto intro: date_le_trans)
  next
    case False
    then have "date_le (fst s) (fst r)" using date_le_total by blast
    with False Cons show ?thesis by (auto simp: set_insort_row)
  qed
qed

lemma sorted_sort_values: "sorted_wrt date_le (map fst (sort_values rs))"
  by (induction rs) (auto simp: sorted_insort_row)

lemma distinct_insort_row:
  "distinct (map fst (insort_row r rs)) = (fst r \<notin> set (map fst rs) \<and> distinct (map fst rs))"
  by (induction rs) (auto simp: set_insort_row)

lemma distinct_sort_values: "distinct (map fst (sort_values rs)) = distinct (map fst rs)"
  by (induction rs) (auto simp: distinct_insort_row set_sort_values)

lemma map_of_sort_values:
  assumes "distinct (map fst rs)"
  shows "map_of (sort_values rs) = map_of rs"
  using assms by (simp add: map_of_inject_set distinct_sort_values set_sort_values)

lemma merged_rows:
  "distinct (map fst (sort_values (drop_duplicates_last (cs @ ns)))) \<and>
   sorted_wrt date_le (map fst (sort_values (drop_duplicates_last (cs @ ns)))) \<and>
   map_of (sort_values (drop_duplicates_last (cs @ ns))) = map_of (rev cs) ++ map_of (rev ns)"
  by (simp add: distinct_sort_values distinct_drop_duplicates_last sorted_sort_values
      map_of_sort_values map_of_drop_duplicates_last map_of_append)

lemma set_drop_duplicates_last: "set (drop_duplicates_last rs) \<subseteq> set rs"
  by (induction rs) auto

lemma day_cells_merged:
  assumes "day_cells cs" and "day_cells ns"
  shows "day_cells (sort_values (drop_duplicates_last (cs @ ns)))"
  using assms set_drop_duplicates_last [of "cs @ ns"]
  by (auto simp: day_cells_def list_all_iff set_sort_values)

lemma date_of_day_cell:
  assumes "midnight t = t"
  shows "t = date_of t * days 1"
proof -
  have "t mod days 1 = 0"
    using assms by (simp add: midnight_def)
  then show ?thesis
    using div_mult_mod_eq [of t "days 1"] by (simp add: date_of_def)
qed

lemma day_cellsD: "day_cells rs \<Longrightarrow> (Some t, v) \<in> set rs \<Longrightarrow> midnight t = t"
  by (force simp: day_cells_def list_all_iff)

lemma distinct_dates:
  assumes "day_cells rs" and "distinct (map fst rs)"
  shows "distinct (dates rs)"
proof -
  have "inj_on (map_option date_of) (set (map fst rs))"
  proof (rule inj_onI)
    fix a b
    assume a: "a \<in> set (map fst rs)" and b: "b \<in> set (map fst rs)"
      and e: "map_option date_of a = map_option date_of b"
    show "a = b"
    proof (cases a)
      case None
      with e show ?thesis by simp
    next
      case (Some t)
      with e obtain u where u: "b = Some u" "date_of t = date_of u"
        by (cases b) auto
      have "midnight t = t" and "midnight u = u"
        using a b Some u(1) assms(1) by (auto dest: day_cellsD)
      then have "t = u"
        using date_of_day_cell [of t] date_of_day_cell [of u] u(2) by simp
      with Some u(1) show ?thesis by simp
    qed
  qed
  then have "distinct (map (map_option date_of) (map fst rs))"
    using assms(2) by (subst distinct_map) simp
  then show ?thesis
    by (simp add: dates_def comp_def)
qed

lemma date_le_date_of: "date_le a b \<Longrightarrow> date_le (map_option date_of a) (map_option date_of b)"
proof (cases a; cases b)
  fix t u
  assume "date_le a b" and "a = Some t" and "b = Some u"
  then have "t \<le> u" by simp
  moreover have "(0::int) < days 1" by (simp add: days_def)
  ultimately have "t div days 1 \<le> u div days 1" by (rule zdiv_mono1)
  then show ?thesis
    using \<open>a = Some t\<close> \<open>b = Some u\<close> by (simp add: date_of_def)
qed auto

lemma sorted_dates:
  assumes "sorted_wrt date_le (map fst rs)"
  shows "sorted_wrt date_le (dates rs)"
proof -
  have "sorted_wrt (\<lambda>r q. date_le (fst r) (fst q)) rs"
    using assms by (simp add: sorted_wrt_map)
  then have "sorted_wrt (\<lambda>r q. date_le (map_option date_of (fst r)) (map_option date_of (fst q))) rs"
    by (rule sorted_wrt_mono_rel [rotated]) (rule date_le_date_of)
  then show ?thesis
    by (simp add: dates_def sorted_wrt_map)
qed

lemma midnight_le: "midnight t \<le> t"
  by (simp add: midnight_def days_def)

section \<open>The paths of get_data\<close>

lemma get_data_present:
  "data_file w = Some b \<Longrightarrow> get_data l c s k n w = from_cache l c s k n w"
  by (simp add: get_data_def)

lemma from_cache_expired:
  "\<not> df_empty (load_csv w) \<Longrightarrow> cooldown_over c n w \<Longrightarrow>
   from_cache l c s k n w =
     (case refresh l s k n (load_csv w) w of
        (Inl e, w') \<Rightarrow> (Inr (Some (load_csv w)), w')
      | (Inr r, w') \<Rightarrow> (Inr r, w'))"
  by (simp add: from_cache_def Let_def cooldown_over_def)

lemma from_cache_in_cooldown:
  "\<not> df_empty (load_csv w) \<Longrightarrow> in_cooldown c n w \<Longrightarrow>
   from_cache l c s k n w = (Inr (Some (load_csv w)), w)"
  by (simp add: from_cache_def Let_def in_cooldown_def)

lemma load_csv_Csv: "data_file w = Some (Csv df) \<Longrightarrow> df \<noteq> Unparsed \<Longrightarrow> load_csv w = df"
  by (cases df) (simp_all add: load_csv_def read_csv_def)

lemma refresh_backfill:
  "backfill_due s d = Inr True \<Longrightarrow> refresh l s k n d w = full_fetch l s k n w"
  by (simp add: refresh_def)

lemma refresh_forward:
  "backfill_due s d = Inr False \<Longrightarrow> date_max d = Some mx \<Longrightarrow>
   refresh l s k n d w =
     (if mx < midnight n - days 1 then incremental l k n d mx w else touch d n w)"
  by (simp add: refresh_def)

lemma incremental_fetches:
  "mx < midnight n - days 1 \<Longrightarrow>
   incremental l k n d mx w =
     (let req = \<lparr>arg_start = Start (midnight (mx + days 1)),
                 arg_kwargs = pop_key ''start_date'' k\<rparr>;
          w1 = w\<lparr>calls := calls w @ [req]\<rparr>
      in case l req of
           Inl e \<Rightarrow> (Inl e, w1)
         | Inr None \<Rightarrow> (Inl AttributeError, w1)
         | Inr (Some df_new) \<Rightarrow>
             if \<not> df_empty df_new then
               (case ensure_date_format df_new of
                  Inl e \<Rightarrow> (Inl e, w1)
                | Inr df_new' \<Rightarrow>
                    (case merge_frames d df_new' of
                       Inl e \<Rightarrow> (Inl e, w1)
                     | Inr df_combined \<Rightarrow>
                         (Inr (Some df_combined), save_and_push df_combined n w1)))
             else
               (case update_meta n w1 of
                  Inl e \<Rightarrow> (Inl e, w1)
                | Inr w2 \<Rightarrow> (Inr (Some d), push_meta_only w2)))"
  using midnight_le [of n]
  by (simp add: incremental_def Let_def fetch_data_def days_def)

lemma ensure_date_format_ok: "df \<noteq> Unparsed \<Longrightarrow> ensure_date_format df = Inr df"
  by (cases df) simp_all

lemma merge_frames_Dated:
  "df \<noteq> Unparsed \<Longrightarrow>
   merge_frames (Dated cs) df = Inr (Dated (sort_values (drop_duplicates_last (cs @ as_rows df))))"
  by (cases df) (simp_all add: merge_frames_def)

lemma data_file_save_and_push:
  "disk_ok w \<Longrightarrow> data_file (save_and_push df n w) = Some (Csv df)"
  by (simp add: save_and_push_def to_csv_def update_meta_def upload_data_def upload_meta_def)

lemma meta_file_save_and_push:
  "disk_ok w \<Longrightarrow> meta_file (save_and_push df n w) = Some (Meta n)"
  by (simp add: save_and_push_def to_csv_def update_meta_def upload_data_def upload_meta_def)

lemma calls_save_and_push: "calls (save_and_push df n w) = calls w"
  by (simp add: save_and_push_def to_csv_def update_meta_def upload_data_def upload_meta_def
      split: option.splits)

lemma date_max_cached: "date_max (Dated cached_rows) = Some (days 101)"
  by (simp add: cached_rows_def stamps_def map_filter_simps days_def)

lemma date_min_cached: "date_min (Dated cached_rows) = Some (days 100)"
  by (simp add: cached_rows_def stamps_def map_filter_simps days_def)

lemma data_file_cached: "data_file w_cached = Some (Csv (Dated cached_rows))"
  by (simp add: w_cached_def)

lemma last_checked_cached: "get_last_checked w_cached = Naive (days 102)"
  by (simp add: w_cached_def get_last_checked_def)

lemma midnight_days: "midnight (days n) = days n"
  by (simp add: midnight_def days_def)

text \<open>
  Claim C4, as amended. In an incremental refresh whose loader returns at least one
  record, the frame returned (and saved, when the disk can be written) is the cached rows
  followed by the new rows, with the last row of every timestamp kept and the rows sorted
  by timestamp. No two of its rows share a timestamp, the timestamps ascend (a missing
  one last), and looking a timestamp up gives the newly fetched value where there is one
  and the cached value otherwise. When all date cells of the cached and of the new rows
  are of day precision, so are those of the result, and no two of its rows share a
  calendar date.
\<close>

theorem incremental_merge:
  assumes "data_file w = Some (Csv (Dated cached))" and "cached \<noteq> []"
    and "cooldown_over ci now w"
    and "backfill_due sd (Dated cached) = Inr False"
    and "date_max (Dated cached) = Some mx" and "mx < midnight now - days 1"
    and "loader \<lparr>arg_start = Start (midnight (mx + days 1)),
                 arg_kwargs = pop_key ''start_date'' kw\<rparr> = Inr (Some df_new)"
    and "\<not> df_empty df_new" and "df_new \<noteq> Unparsed"
  shows "let merged = sort_values (drop_duplicates_last (cached @ as_rows df_new)) in
         fst (get_data loader ci sd kw now w) = Inr (Some (Dated merged)) \<and>
         distinct (map fst merged) \<and>
         sorted_wrt date_le (map fst merged) \<and>
         map_of merged = map_of (rev cached) ++ map_of (rev (as_rows df_new)) \<and>
         (disk_ok w \<longrightarrow> data_file (snd (get_data loader ci sd kw now w)) = Some (Csv (Dated merged))) \<and>
         (day_cells cached \<and> day_cells (as_rows df_new) \<longrightarrow>
            day_cells merged \<and> distinct (dates merged) \<and> sorted_wrt date_le (dates merged))"
proof -
  let ?merged = "sort_values (drop_duplicates_last (cached @ as_rows df_new))"
  have l: "load_csv w = Dated cached"
    using assms(1) by (simp add: load_csv_Csv)
  have g: "get_data loader ci sd kw now w =
      (Inr (Some (Dated ?merged)),
       save_and_push (Dated ?merged) now
         (w\<lparr>calls := calls w @ [\<lparr>arg_start = Start (midnight (mx + days 1)),
                 arg_kwargs = pop_key ''start_date'' kw\<rparr>]\<rparr>))"
    using assms
    by (simp add: get_data_present from_cache_expired l refresh_forward incremental_fetches
        ensure_date_format_ok merge_frames_Dated)
  note m = merged_rows [of cached "as_rows df_new"]
  have by_day: "day_cells ?merged \<and> distinct (dates ?merged) \<and> sorted_wrt date_le (dates ?merged)"
    if "day_cells cached" and "day_cells (as_rows df_new)"
  proof -
    have d: "day_cells ?merged"
      using that by (rule day_cells_merged)
    show ?thesis
      using d m distinct_dates [OF d] sorted_dates [of ?merged] by blast
  qed
  show ?thesis
    using m by_day by (simp add: g Let_def data_file_save_and_push)
qed

text \<open>
  Claim C4 as stated fails for rows of one calendar date with different times of day:
  line 89 drops duplicates of the timestamp. The cache holds the row of day 100, the
  loader answers with a row of day 100, 16:00; the merged frame keeps both, so that it
  has one date twice and the cached value of that date is not replaced.
\<close>

theorem same_day_rows_both_kept:
  "cooldown_over (days 1) (days 110) w_one_row \<and>
   fst (get_data (\<lambda>r. Inr (Some (Dated afternoon_rows))) (days 1) Unset [] (days 110) w_one_row) =
     Inr (Some (Dated [(Some (days 100), 10), (Some (days 100 + 57600000000), 99)])) \<and>
   dates [(Some (days 100), 10), (Some (days 100 + 57600000000), 99)] = [Some 100, Some 100] \<and>
   \<not> distinct (dates [(Some (days 100), 10), (Some (days 100 + 57600000000), 99)])"
  by (intro conjI; code_simp)

theorem incremental_merge_witness:
  "data_file w_cached = Some (Csv (Dated cached_rows)) \<and> cached_rows \<noteq> [] \<and>
   cooldown_over (days 1) (days 110) w_cached \<and>
   backfill_due Unset (Dated cached_rows) = Inr False \<and>
   date_max (Dated cached_rows) = Some (days 101) \<and>
   days 101 < midnight (days 110) - days 1 \<and>
   \<not> df_empty (Dated new_rows) \<and> disk_ok w_cached \<and>
   day_cells cached_rows \<and> day_cells new_rows \<and>
   fst (get_data (\<lambda>r. Inr (Some (Dated new_rows))) (days 1) Unset [] (days 110) w_cached) =
     Inr (Some (Dated [(Some (days 100), 10), (Some (days 101), 99), (Some (days 102), 12)])) \<and>
   data_file (snd (get_data (\<lambda>r. Inr (Some (Dated new_rows))) (days 1) Unset [] (days 110) w_cached)) =
     Some (Csv (Dated [(Some (days 100), 10), (Some (days 101), 99), (Some (days 102), 12)])) \<and>
   distinct (dates [(Some (days 100), 10), (Some (days 101), 99), (Some (days 102), 12)]) \<and>
   dates [(Some (days 100), 10), (Some (days 101), 99), (Some (days 102), 12)] =
     [Some 100, Some 101, Some 102]"
proof -
  have h2: "cached_rows \<noteq> []"
    by code_simp
  have h3: "cooldown_over (days 1) (days 110) w_cached"
    by code_simp
  have h4: "backfill_due Unset (Dated cached_rows) = Inr False"
    by code_simp
  have h6: "days 101 < midnight (days 110) - days 1"
    by code_simp
  have h7: "(Inr (Some (Dated new_rows)) :: error + frame option) = Inr (Some (Dated new_rows))"
    by simp
  have h8: "\<not> df_empty (Dated new_rows)"
    by code_simp
  have h9: "Dated new_rows \<noteq> Unparsed"
    by simp
  have d: "disk_ok w_cached"
    by code_simp
  have dc: "day_cells cached_rows" and dn: "day_cells new_rows"
    by code_simp+
  have m: "sort_values (drop_duplicates_last (cached_rows @ new_rows)) =
      [(Some (days 100), 10), (Some (days 101), 99), (Some (days 102), 12)]"
    by code_simp
  have ds: "dates [(Some (days 100), 10), (Some (days 101), 99), (Some (days 102), 12)] =
     [Some 100, Some 101, Some 102]"
    by code_simp
  note t = incremental_merge [where loader = "\<lambda>r. Inr (Some (Dated new_rows))" and kw = "[]"
      and df_new = "Dated new_rows" and ci = "days 1" and now = "days 110" and sd = Unset
      and w = w_cached and cached = cached_rows and mx = "days 101",
      OF data_file_cached h2 h3 h4 date_max_cached h6 h7 h8 h9,
      unfolded Let_def as_rows.simps m]
  from t d
  have r1: "fst (get_data (\<lambda>r. Inr (Some (Dated new_rows))) (days 1) Unset [] (days 110) w_cached) =
     Inr (Some (Dated [(Some (days 100), 10), (Some (days 101), 99), (Some (days 102), 12)]))"
    and r2: "data_file (snd (get_data (\<lambda>r. Inr (Some (Dated new_rows))) (days 1) Unset []
       (days 110) w_cached)) =
     Some (Csv (Dated [(Some (days 100), 10), (Some (days 101), 99), (Some (days 102), 12)]))"
    by blast+
  from t dc dn
  have r3: "distinct (dates [(Some (days 100), 10), (Some (days 101), 99), (Some (days 102), 12)])"
    by blast
  show ?thesis
    using data_file_cached h2 h3 h4 date_max_cached h6 h8 d dc dn r1 r2 r3 ds by blast
qed

section \<open>Backfill and forward fill\<close>

lemma date_min_nonempty: "date_min df = Some mn \<Longrightarrow> \<not> df_empty df"
  by (cases df) (auto simp: stamps_def map_filter_simps)

lemma date_max_nonempty: "date_max df = Some mx \<Longrightarrow> \<not> df_empty df"
  by (cases df) (auto simp: stamps_def map_filter_simps)

lemma date_max_Dated: "date_max df = Some mx \<Longrightarrow> \<exists>rs. df = Dated rs"
  by (cases df) auto

lemma backfill_due_Start:
  "date_min df = Some mn \<Longrightarrow> backfill_due (Start s) df = Inr (mn > s + days 5)"
  by (simp add: backfill_due_def)

lemma full_fetch_clash:
  "''meta_path'' \<in> set (map fst k) \<Longrightarrow> full_fetch l s k n w = (Inl TypeError, w)"
  by (simp add: full_fetch_def)

lemma calls_full_fetch:
  "''meta_path'' \<notin> set (map fst k) \<Longrightarrow>
   calls (snd (full_fetch l s k n w)) = calls w @ [\<lparr>arg_start = s, arg_kwargs = k\<rparr>]"
  by (simp add: full_fetch_def fetch_and_save_def fetch_data_def calls_save_and_push
      split: sum.splits option.splits)

lemma full_fetch_rows:
  assumes "l \<lparr>arg_start = s, arg_kwargs = k\<rparr> = Inr (Some df)" and "\<not> df_empty df"
    and "df \<noteq> Unparsed" and "''meta_path'' \<notin> set (map fst k)"
  shows "full_fetch l s k n w =
     (Inr (Some df), save_and_push df n (w\<lparr>calls := calls w @ [\<lparr>arg_start = s, arg_kwargs = k\<rparr>]\<rparr>))"
  using assms
  by (simp add: full_fetch_def fetch_and_save_def fetch_data_def ensure_date_format_ok)

lemma full_fetch_no_rows:
  assumes "l \<lparr>arg_start = s, arg_kwargs = k\<rparr> = Inr (Some df)" and "df_empty df"
    and "''meta_path'' \<notin> set (map fst k)"
  shows "full_fetch l s k n w =
     (Inr (Some df), w\<lparr>calls := calls w @ [\<lparr>arg_start = s, arg_kwargs = k\<rparr>]\<rparr>)"
  using assms
  by (simp add: full_fetch_def fetch_and_save_def fetch_data_def)

lemma hub_save_and_push:
  "disk_ok w \<Longrightarrow> hub_ok w \<Longrightarrow>
   hub_data (save_and_push df n w) = Some (Csv df) \<and> hub_meta (save_and_push df n w) = Some (Meta n)"
  by (simp add: save_and_push_def to_csv_def update_meta_def upload_data_def upload_meta_def)

text \<open>
  Claim C5, as amended. Let the cached frame have a minimum date that lies more than five
  days after the requested start, and let no keyword argument be named \<^verbatim>\<open>meta_path\<close>.
  Once the check interval has passed, \<^verbatim>\<open>get_data\<close> leaves the incremental logic aside
  and does what the full fetch of an absent cache does: it asks the loader once, for the
  requested start and the caller's arguments. When the loader answers with rows, these
  are returned, they replace the data file and \<^verbatim>\<open>last_checked\<close> is set to now (if the disk
  can be written), and both files are published (if the hub answers as well). When the
  loader answers with a frame without rows, the data file and the sidecar stay as they
  were. While the check interval has not passed, the cached frame is returned and the
  state stays as it was.
\<close>

theorem backfill_full_fetch:
  assumes "data_file w = Some (Csv (Dated cached))" and "date_min (Dated cached) = Some mn"
    and "mn > s + days 5" and "''meta_path'' \<notin> set (map fst kw)"
  shows "(cooldown_over ci now w \<longrightarrow>
            get_data loader ci (Start s) kw now w = full_fetch loader (Start s) kw now w \<and>
            calls (snd (get_data loader ci (Start s) kw now w)) =
              calls w @ [\<lparr>arg_start = Start s, arg_kwargs = kw\<rparr>] \<and>
            (\<forall>df. loader \<lparr>arg_start = Start s, arg_kwargs = kw\<rparr> = Inr (Some df) \<and>
                  \<not> df_empty df \<and> df \<noteq> Unparsed \<longrightarrow>
                  fst (get_data loader ci (Start s) kw now w) = Inr (Some df) \<and>
                  (disk_ok w \<longrightarrow>
                     data_file (snd (get_data loader ci (Start s) kw now w)) = Some (Csv df) \<and>
                     meta_file (snd (get_data loader ci (Start s) kw now w)) = Some (Meta now)) \<and>
                  (disk_ok w \<and> hub_ok w \<longrightarrow>
                     hub_data (snd (get_data loader ci (Start s) kw now w)) = Some (Csv df) \<and>
                     hub_meta (snd (get_data loader ci (Start s) kw now w)) = Some (Meta now))) \<and>
            (\<forall>df. loader \<lparr>arg_start = Start s, arg_kwargs = kw\<rparr> = Inr (Some df) \<and>
                  df_empty df \<longrightarrow>
                  data_file (snd (get_data loader ci (Start s) kw now w)) = data_file w \<and>
                  meta_file (snd (get_data loader ci (Start s) kw now w)) = meta_file w)) \<and>
         (in_cooldown ci now w \<longrightarrow>
            get_data loader ci (Start s) kw now w = (Inr (Some (Dated cached)), w))"
proof -
  let ?req = "\<lparr>arg_start = Start s, arg_kwargs = kw\<rparr>"
  let ?w1 = "w\<lparr>calls := calls w @ [?req]\<rparr>"
  have l: "load_csv w = Dated cached"
    using assms(1) by (simp add: load_csv_Csv)
  have ne: "\<not> df_empty (load_csv w)"
    using date_min_nonempty [OF assms(2)] by (simp add: l)
  have b: "backfill_due (Start s) (Dated cached) = Inr True"
    using assms(2,3) by (simp add: backfill_due_Start)
  have hit: "in_cooldown ci now w \<Longrightarrow>
      get_data loader ci (Start s) kw now w = (Inr (Some (Dated cached)), w)"
    using ne by (simp add: get_data_present [OF assms(1)] from_cache_in_cooldown l)
  have miss: "get_data loader ci (Start s) kw now w = full_fetch loader (Start s) kw now w"
    if "cooldown_over ci now w"
    using ne b that assms(4)
    by (simp add: get_data_present [OF assms(1)] from_cache_expired l refresh_backfill
        full_fetch_def case_prod_beta)
  have rows: "fst (full_fetch loader (Start s) kw now w) = Inr (Some df) \<and>
      (disk_ok w \<longrightarrow>
         data_file (snd (full_fetch loader (Start s) kw now w)) = Some (Csv df) \<and>
         meta_file (snd (full_fetch loader (Start s) kw now w)) = Some (Meta now)) \<and>
      (disk_ok w \<and> hub_ok w \<longrightarrow>
         hub_data (snd (full_fetch loader (Start s) kw now w)) = Some (Csv df) \<and>
         hub_meta (snd (full_fetch loader (Start s) kw now w)) = Some (Meta now))"
    if "loader ?req = Inr (Some df)" and "\<not> df_empty df" and "df \<noteq> Unparsed" for df
    using hub_save_and_push [of ?w1 df now]
    by (simp add: full_fetch_rows [where l = loader and s = "Start s" and k = kw and df = df,
          OF that assms(4)] data_file_save_and_push meta_file_save_and_push)
  have none: "data_file (snd (full_fetch loader (Start s) kw now w)) = data_file w \<and>
      meta_file (snd (full_fetch loader (Start s) kw now w)) = meta_file w"
    if "loader ?req = Inr (Some df)" and "df_empty df" for df
    by (simp add: full_fetch_no_rows [where l = loader and s = "Start s" and k = kw and df = df,
          OF that assms(4)])
  have over: "?thesis" if o: "cooldown_over ci now w"
  proof -
    have "\<not> in_cooldown ci now w"
      using o by (simp add: in_cooldown_def cooldown_over_def)
    then show ?thesis
      using rows none calls_full_fetch [OF assms(4), of loader "Start s" now w]
      by (simp add: miss [OF o])
  qed
  show ?thesis
  proof (cases "cooldown_over ci now w")
    case True
    then show ?thesis by (rule over)
  next
    case False
    then show ?thesis using hit by simp
  qed
qed

text \<open>
  Claim C5 as stated fails in two ways, with the cached minimum date more than five days
  after the requested start and the check interval passed. A loader that answers the
  full fetch with a frame without rows leaves the cache as it was, not overwritten, and
  \<^verbatim>\<open>last_checked\<close> untouched (the guard of line 115). And with a keyword argument named
  \<^verbatim>\<open>meta_path\<close> the call on line 66 raises inside the \<^verbatim>\<open>try\<close> block, so that the loader
  is not asked at all and the cached frame is returned.
\<close>

theorem backfill_without_rows_keeps_cache:
  "date_min (load_csv w_cached) = Some (days 100) \<and> days 100 > days 1 + days 5 \<and>
   cooldown_over (days 1) (days 110) w_cached \<and>
   calls (snd (get_data (\<lambda>r. Inr (Some (Dated []))) (days 1) (Start (days 1)) [] (days 110)
     w_cached)) = [\<lparr>arg_start = Start (days 1), arg_kwargs = []\<rparr>] \<and>
   data_file (snd (get_data (\<lambda>r. Inr (Some (Dated []))) (days 1) (Start (days 1)) [] (days 110)
     w_cached)) = Some (Csv (Dated cached_rows)) \<and>
   meta_file (snd (get_data (\<lambda>r. Inr (Some (Dated []))) (days 1) (Start (days 1)) [] (days 110)
     w_cached)) = Some (Meta (days 102)) \<and>
   calls (snd (get_data (\<lambda>r. Inr (Some (Dated full_rows))) (days 1) (Start (days 1))
     [(''meta_path'', ''x'')] (days 110) w_cached)) = [] \<and>
   fst (get_data (\<lambda>r. Inr (Some (Dated full_rows))) (days 1) (Start (days 1))
     [(''meta_path'', ''x'')] (days 110) w_cached) = Inr (Some (Dated cached_rows))"
  by (intro conjI; code_simp)

theorem backfill_full_fetch_witness:
  "data_file w_cached = Some (Csv (Dated cached_rows)) \<and>
   date_min (Dated cached_rows) = Some (days 100) \<and> days 100 > days 1 + days 5 \<and>
   ''meta_path'' \<notin> set (map fst ([] :: (string \<times> string) list)) \<and>
   cooldown_over (days 1) (days 110) w_cached \<and> in_cooldown (days 1) (days 102) w_cached \<and>
   disk_ok w_cached \<and> hub_ok w_cached \<and> \<not> df_empty (Dated full_rows) \<and>
   df_empty (Dated []) \<and>
   fst (get_data (\<lambda>r. Inr (Some (Dated full_rows))) (days 1) (Start (days 1)) [] (days 110) w_cached) =
     Inr (Some (Dated full_rows)) \<and>
   data_file (snd (get_data (\<lambda>r. Inr (Some (Dated full_rows))) (days 1) (Start (days 1)) []
       (days 110) w_cached)) = Some (Csv (Dated full_rows)) \<and>
   meta_file (snd (get_data (\<lambda>r. Inr (Some (Dated full_rows))) (days 1) (Start (days 1)) []
       (days 110) w_cached)) = Some (Meta (days 110)) \<and>
   hub_data (snd (get_data (\<lambda>r. Inr (Some (Dated full_rows))) (days 1) (Start (days 1)) []
       (days 110) w_cached)) = Some (Csv (Dated full_rows)) \<and>
   hub_meta (snd (get_data (\<lambda>r. Inr (Some (Dated full_rows))) (days 1) (Start (days 1)) []
       (days 110) w_cached)) = Some (Meta (days 110)) \<and>
   calls (snd (get_data (\<lambda>r. Inr (Some (Dated full_rows))) (days 1) (Start (days 1)) []
       (days 110) w_cached)) = [\<lparr>arg_start = Start (days 1), arg_kwargs = []\<rparr>] \<and>
   data_file (snd (get_data (\<lambda>r. Inr (Some (Dated []))) (days 1) (Start (days 1)) []
       (days 110) w_cached)) = Some (Csv (Dated cached_rows)) \<and>
   meta_file (snd (get_data (\<lambda>r. Inr (Some (Dated []))) (days 1) (Start (days 1)) []
       (days 110) w_cached)) = Some (Meta (days 102)) \<and>
   get_data (\<lambda>r. Inr (Some (Dated full_rows))) (days 1) (Start (days 1)) [] (days 102) w_cached =
     (Inr (Some (Dated cached_rows)), w_cached)"
proof -
  have far: "days 100 > days 1 + days 5"
    by code_simp
  have nk: "''meta_path'' \<notin> set (map fst ([] :: (string \<times> string) list))"
    by simp
  note t1 = backfill_full_fetch [OF data_file_cached date_min_cached far nk,
      of "days 1" "days 110" "\<lambda>r. Inr (Some (Dated full_rows))"]
  note t2 = backfill_full_fetch [OF data_file_cached date_min_cached far nk,
      of "days 1" "days 102" "\<lambda>r. Inr (Some (Dated full_rows))"]
  note t3 = backfill_full_fetch [OF data_file_cached date_min_cached far nk,
      of "days 1" "days 110" "\<lambda>r. Inr (Some (Dated []))"]
  have expired: "cooldown_over (days 1) (days 110) w_cached"
    by code_simp
  have fresh: "in_cooldown (days 1) (days 102) w_cached"
    by code_simp
  have d: "disk_ok w_cached" and h: "hub_ok w_cached"
    and ne: "\<not> df_empty (Dated full_rows)" and em: "df_empty (Dated [])"
    by code_simp+
  have u: "Dated full_rows \<noteq> Unparsed"
    by simp
  have c: "calls w_cached @ [\<lparr>arg_start = Start (days 1), arg_kwargs = []\<rparr>] =
      [\<lparr>arg_start = Start (days 1), arg_kwargs = []\<rparr>]"
    by code_simp
  have f: "data_file w_cached = Some (Csv (Dated cached_rows))"
    and m: "meta_file w_cached = Some (Meta (days 102))"
    by code_simp+
  from t1 expired d h ne u
  have r1: "fst (get_data (\<lambda>r. Inr (Some (Dated full_rows))) (days 1) (Start (days 1)) []
        (days 110) w_cached) = Inr (Some (Dated full_rows))"
    and r2: "data_file (snd (get_data (\<lambda>r. Inr (Some (Dated full_rows))) (days 1)
        (Start (days 1)) [] (days 110) w_cached)) = Some (Csv (Dated full_rows))"
    and r2m: "meta_file (snd (get_data (\<lambda>r. Inr (Some (Dated full_rows))) (days 1)
        (Start (days 1)) [] (days 110) w_cached)) = Some (Meta (days 110))"
    and r2h: "hub_data (snd (get_data (\<lambda>r. Inr (Some (Dated full_rows))) (days 1)
        (Start (days 1)) [] (days 110) w_cached)) = Some (Csv (Dated full_rows))"
    and r2n: "hub_meta (snd (get_data (\<lambda>r. Inr (Some (Dated full_rows))) (days 1)
        (Start (days 1)) [] (days 110) w_cached)) = Some (Meta (days 110))"
    by blast+
  from t1 expired
  have "calls (snd (get_data (\<lambda>r. Inr (Some (Dated full_rows))) (days 1) (Start (days 1)) []
       (days 110) w_cached)) = calls w_cached @ [\<lparr>arg_start = Start (days 1), arg_kwargs = []\<rparr>]"
    by blast
  then have r3: "calls (snd (get_data (\<lambda>r. Inr (Some (Dated full_rows))) (days 1) (Start (days 1)) []
       (days 110) w_cached)) = [\<lparr>arg_start = Start (days 1), arg_kwargs = []\<rparr>]"
    by (simp only: c)
  from t2 fresh
  have r4: "get_data (\<lambda>r. Inr (Some (Dated full_rows))) (days 1) (Start (days 1)) [] (days 102)
      w_cached = (Inr (Some (Dated cached_rows)), w_cached)"
    by blast
  from t3 expired em
  have "data_file (snd (get_data (\<lambda>r. Inr (Some (Dated []))) (days 1) (Start (days 1)) []
       (days 110) w_cached)) = data_file w_cached"
    and "meta_file (snd (get_data (\<lambda>r. Inr (Some (Dated []))) (days 1) (Start (days 1)) []
       (days 110) w_cached)) = meta_file w_cached"
    by blast+
  then have r5: "data_file (snd (get_data (\<lambda>r. Inr (Some (Dated []))) (days 1) (Start (days 1)) []
       (days 110) w_cached)) = Some (Csv (Dated cached_rows))"
    and r6: "meta_file (snd (get_data (\<lambda>r. Inr (Some (Dated []))) (days 1) (Start (days 1)) []
       (days 110) w_cached)) = Some (Meta (days 102))"
    by (simp_all only: f m)
  show ?thesis
    using data_file_cached date_min_cached far nk expired fresh d h ne em r1 r2 r2m r2h r2n r3 r4
      r5 r6
    by blast
qed

lemma calls_push_meta_only: "calls (push_meta_only w) = calls w"
  by (simp add: push_meta_only_def upload_meta_def split: option.splits)

lemma calls_incremental:
  assumes "mx < midnight n - days 1"
  shows "calls (snd (incremental l k n d mx w)) =
     calls w @ [\<lparr>arg_start = Start (midnight (mx + days 1)),
                 arg_kwargs = pop_key ''start_date'' k\<rparr>]"
  by (simp add: incremental_fetches [OF assms] Let_def calls_save_and_push calls_push_meta_only
      update_meta_def split: sum.splits option.splits)

lemma touch_eq:
  "touch d n w = (if disk_ok w then (Inr (Some d), w\<lparr>meta_file := Some (Meta n)\<rparr>)
                  else (Inl OSError, w))"
  by (simp add: touch_def update_meta_def)

text \<open>
  What lines 68 to 104 do once the check interval has passed and no backfill is due. If
  the cached maximum date lies more than one day before today's midnight, the loader is
  asked once, with the day after the cached maximum date as start. Otherwise nothing is
  asked, the cached frame is returned and only \<^verbatim>\<open>last_checked\<close> is written.
\<close>

theorem forward_fill:
  assumes "data_file w = Some b" and "\<not> df_empty (load_csv w)"
    and "cooldown_over ci now w"
    and "backfill_due sd (load_csv w) = Inr False"
    and "date_max (load_csv w) = Some mx"
  shows "(mx < midnight now - days 1 \<longrightarrow>
            calls (snd (get_data loader ci sd kw now w)) =
              calls w @ [\<lparr>arg_start = Start (midnight (mx + days 1)),
                          arg_kwargs = pop_key ''start_date'' kw\<rparr>]) \<and>
         (midnight now - days 1 \<le> mx \<longrightarrow>
            get_data loader ci sd kw now w =
              (Inr (Some (load_csv w)),
               if disk_ok w then w\<lparr>meta_file := Some (Meta now)\<rparr> else w))"
proof -
  have g: "get_data loader ci sd kw now w =
      (case (if mx < midnight now - days 1 then incremental loader kw now (load_csv w) mx w
             else touch (load_csv w) now w) of
         (Inl e, w') \<Rightarrow> (Inr (Some (load_csv w)), w')
       | (Inr r, w') \<Rightarrow> (Inr r, w'))"
    using assms
    by (simp add: get_data_present from_cache_expired refresh_forward)
  have far: "mx < midnight now - days 1 \<Longrightarrow>
      calls (snd (get_data loader ci sd kw now w)) =
        calls w @ [\<lparr>arg_start = Start (midnight (mx + days 1)),
                    arg_kwargs = pop_key ''start_date'' kw\<rparr>]"
    using calls_incremental [of mx now loader kw "load_csv w" w]
    by (simp add: g case_prod_beta split: sum.splits)
  have near: "midnight now - days 1 \<le> mx \<Longrightarrow>
      get_data loader ci sd kw now w =
        (Inr (Some (load_csv w)), if disk_ok w then w\<lparr>meta_file := Some (Meta now)\<rparr> else w)"
    by (simp add: g touch_eq)
  show ?thesis
    using far near by blast
qed

text \<open>
  Claim C6. A cache whose maximum date is before today is to be refreshed from the day
  after that date, and the comments of the source say so (``the data is older than
  today'', and for the other branch ``there is data up to today''). Line 70 compares with
  \<^verbatim>\<open>today - timedelta(days=1)\<close> instead: for a cache whose last row is yesterday's, with
  the default check interval of 0.00035 days passed and no start requested, no request
  reaches the loader and the cached frame is returned.
\<close>

theorem cache_ending_yesterday_not_refreshed:
  "date_max (load_csv w_cached) = Some (days 101) \<and>
   days 101 < midnight (days 102 + 43200000000) \<and>
   cooldown_over 30240000 (days 102 + 43200000000) w_cached \<and>
   backfill_due Unset (load_csv w_cached) = Inr False \<and>
   calls (snd (get_data (\<lambda>r. Inr (Some (Dated new_rows))) 30240000 Unset []
            (days 102 + 43200000000) w_cached)) = [] \<and>
   fst (get_data (\<lambda>r. Inr (Some (Dated new_rows))) 30240000 Unset []
            (days 102 + 43200000000) w_cached) = Inr (Some (Dated cached_rows))"
  by (intro conjI; code_simp)

theorem forward_fill_witness:
  "data_file w_cached = Some (Csv (Dated cached_rows)) \<and> \<not> df_empty (load_csv w_cached) \<and>
   cooldown_over (days 1) (days 110) w_cached \<and>
   cooldown_over 30240000 (days 102 + 43200000000) w_cached \<and>
   backfill_due Unset (load_csv w_cached) = Inr False \<and>
   date_max (load_csv w_cached) = Some (days 101) \<and>
   days 101 < midnight (days 110) - days 1 \<and>
   midnight (days 102 + 43200000000) - days 1 \<le> days 101 \<and>
   calls (snd (get_data (\<lambda>r. Inr (Some (Dated new_rows))) (days 1) Unset [] (days 110) w_cached)) =
     [\<lparr>arg_start = Start (days 102), arg_kwargs = []\<rparr>] \<and>
   get_data (\<lambda>r. Inr (Some (Dated new_rows))) 30240000 Unset [] (days 102 + 43200000000) w_cached =
     (Inr (Some (Dated cached_rows)), w_cached\<lparr>meta_file := Some (Meta (days 102 + 43200000000))\<rparr>)"
proof -
  have ne: "\<not> df_empty (load_csv w_cached)"
    by code_simp
  have x1: "cooldown_over (days 1) (days 110) w_cached"
    by code_simp
  have x2: "cooldown_over 30240000 (days 102 + 43200000000) w_cached"
    by code_simp
  have b: "backfill_due Unset (load_csv w_cached) = Inr False"
    by code_simp
  have mx: "date_max (load_csv w_cached) = Some (days 101)"
    by code_simp
  have far: "days 101 < midnight (days 110) - days 1"
    by code_simp
  have near: "midnight (days 102 + 43200000000) - days 1 \<le> days 101"
    by code_simp
  note t1 = forward_fill [OF data_file_cached ne x1 b mx,
      of "\<lambda>r. Inr (Some (Dated new_rows))" "[]"]
  note t2 = forward_fill [OF data_file_cached ne x2 b mx,
      of "\<lambda>r. Inr (Some (Dated new_rows))" "[]"]
  have e1: "calls w_cached @ [\<lparr>arg_start = Start (midnight (days 101 + days 1)),
                          arg_kwargs = pop_key ''start_date'' []\<rparr>] =
      [\<lparr>arg_start = Start (days 102), arg_kwargs = []\<rparr>]"
    by code_simp
  have e2: "(Inr (Some (load_csv w_cached)),
       if disk_ok w_cached then w_cached\<lparr>meta_file := Some (Meta (days 102 + 43200000000))\<rparr>
       else w_cached) =
      (Inr (Some (Dated cached_rows)) :: error + frame option,
       w_cached\<lparr>meta_file := Some (Meta (days 102 + 43200000000))\<rparr>)"
    by code_simp
  from t1 far e1
  have r1: "calls (snd (get_data (\<lambda>r. Inr (Some (Dated new_rows))) (days 1) Unset [] (days 110)
      w_cached)) = [\<lparr>arg_start = Start (days 102), arg_kwargs = []\<rparr>]"
    by simp
  from t2 near e2
  have r2: "get_data (\<lambda>r. Inr (Some (Dated new_rows))) 30240000 Unset []
      (days 102 + 43200000000) w_cached =
     (Inr (Some (Dated cached_rows)),
      w_cached\<lparr>meta_file := Some (Meta (days 102 + 43200000000))\<rparr>)"
    by simp
  show ?thesis
    using data_file_cached ne x1 x2 b mx far near r1 r2 by blast
qed

section \<open>When the sidecar is written\<close>

lemma meta_file_push_meta_only: "meta_file (push_meta_only w) = meta_file w"
  by (simp add: push_meta_only_def upload_meta_def split: option.splits)

lemma data_file_push_meta_only: "data_file (push_meta_only w) = data_file w"
  by (simp add: push_meta_only_def upload_meta_def split: option.splits)

lemma meta_file_full_fetch:
  assumes "disk_ok w"
  shows "meta_file (snd (full_fetch l s k n w)) =
     (case l \<lparr>arg_start = s, arg_kwargs = k\<rparr> of
        Inr (Some df) \<Rightarrow>
          if \<not> df_empty df \<and> df \<noteq> Unparsed \<and> ''meta_path'' \<notin> set (map fst k)
          then Some (Meta n) else meta_file w
      | _ \<Rightarrow> meta_file w)"
proof (cases "l \<lparr>arg_start = s, arg_kwargs = k\<rparr>")
  case (Inl e)
  then show ?thesis
    by (simp add: full_fetch_def fetch_and_save_def fetch_data_def)
next
  case (Inr r)
  show ?thesis
  proof (cases r)
    case None
    with Inr show ?thesis
      by (simp add: full_fetch_def fetch_and_save_def fetch_data_def)
  next
    case (Some df)
    with Inr assms show ?thesis
      by (cases df)
        (simp_all add: full_fetch_def fetch_and_save_def fetch_data_def meta_file_save_and_push)
  qed
qed

lemma incremental_checked:
  assumes "disk_ok w" and "mx < midnight n - days 1"
    and "l \<lparr>arg_start = Start (midnight (mx + days 1)),
             arg_kwargs = pop_key ''start_date'' k\<rparr> = Inr (Some df)"
    and "df \<noteq> Unparsed"
  shows "meta_file (snd (incremental l k n (Dated cs) mx w)) = Some (Meta n) \<and>
         (df_empty df \<longrightarrow>
            fst (incremental l k n (Dated cs) mx w) = Inr (Some (Dated cs)) \<and>
            data_file (snd (incremental l k n (Dated cs) mx w)) = data_file w)"
  using assms
  by (simp add: incremental_fetches Let_def ensure_date_format_ok merge_frames_Dated
      meta_file_save_and_push update_meta_def meta_file_push_meta_only data_file_push_meta_only)

text \<open>
  Claim C7, as amended. Let the disk be writable. A refresh that runs the incremental
  logic to its end (the check interval has passed, no backfill is due, the loader answers
  with a frame whose dates can be read) sets \<^verbatim>\<open>last_checked\<close> to now whether or not new
  rows were found; when the loader answers with no rows, the data file stays as it was
  and the cached frame is returned. A full fetch sets \<^verbatim>\<open>last_checked\<close> together with
  the data file, that is, when the loader answered with rows (and the call of
  \<^verbatim>\<open>_fetch_and_save\<close> itself did not fail on a keyword argument named \<^verbatim>\<open>meta_path\<close>), and
  leaves it as it was otherwise.
\<close>

theorem last_checked_updates:
  assumes "disk_ok w"
  shows "(data_file w = Some b \<and> \<not> df_empty (load_csv w) \<and> cooldown_over ci now w \<and>
          backfill_due sd (load_csv w) = Inr False \<and>
          (\<forall>req. \<exists>df. loader req = Inr (Some df) \<and> df \<noteq> Unparsed) \<longrightarrow>
            meta_file (snd (get_data loader ci sd kw now w)) = Some (Meta now) \<and>
            ((\<forall>req df. loader req = Inr (Some df) \<longrightarrow> df_empty df) \<longrightarrow>
               fst (get_data loader ci sd kw now w) = Inr (Some (load_csv w)) \<and>
               data_file (snd (get_data loader ci sd kw now w)) = data_file w)) \<and>
         meta_file (snd (full_fetch loader sd kw now w)) =
           (case loader \<lparr>arg_start = sd, arg_kwargs = kw\<rparr> of
              Inr (Some df) \<Rightarrow>
                if \<not> df_empty df \<and> df \<noteq> Unparsed \<and> ''meta_path'' \<notin> set (map fst kw)
                then Some (Meta now) else meta_file w
            | _ \<Rightarrow> meta_file w)"
proof -
  have inc: "meta_file (snd (get_data loader ci sd kw now w)) = Some (Meta now) \<and>
            ((\<forall>req df. loader req = Inr (Some df) \<longrightarrow> df_empty df) \<longrightarrow>
               fst (get_data loader ci sd kw now w) = Inr (Some (load_csv w)) \<and>
               data_file (snd (get_data loader ci sd kw now w)) = data_file w)"
    if f: "data_file w = Some b" and ne: "\<not> df_empty (load_csv w)"
      and x: "cooldown_over ci now w" and bf: "backfill_due sd (load_csv w) = Inr False"
      and ld: "\<forall>req. \<exists>df. loader req = Inr (Some df) \<and> df \<noteq> Unparsed"
  proof (cases "date_max (load_csv w)")
    case None
    then show ?thesis
      using assms ne x bf
      by (simp add: get_data_present [OF f] from_cache_expired refresh_def touch_eq)
  next
    case (Some mx)
    then obtain cs where cs: "load_csv w = Dated cs"
      using date_max_Dated by blast
    show ?thesis
    proof (cases "mx < midnight now - days 1")
      case True
      from ld obtain df where df: "loader \<lparr>arg_start = Start (midnight (mx + days 1)),
             arg_kwargs = pop_key ''start_date'' kw\<rparr> = Inr (Some df)" "df \<noteq> Unparsed"
        by blast
      note i = incremental_checked [where l = loader and k = kw and w = w and n = now
          and mx = mx and df = df and cs = cs, OF assms True df]
      show ?thesis
        using ne x bf Some True i df(1)
        by (auto simp: get_data_present [OF f] from_cache_expired refresh_forward cs
            case_prod_beta split: sum.splits)
    next
      case False
      then show ?thesis
        using assms ne x bf Some
        by (simp add: get_data_present [OF f] from_cache_expired refresh_forward touch_eq)
    qed
  qed
  show ?thesis
    using inc meta_file_full_fetch [OF assms] by blast
qed

text \<open>
  Claim C7 as stated fails for a full fetch whose loader returns no rows:
  \<^verbatim>\<open>_fetch_and_save\<close> writes the sidecar only inside \<^verbatim>\<open>_save_and_push\<close>. Here the data
  file is absent, the loader is asked once and answers with an empty frame, and
  \<^verbatim>\<open>last_checked\<close> keeps its old value.
\<close>

theorem full_fetch_without_rows_keeps_last_checked:
  "data_file w_absent = None \<and>
   fst (get_data (\<lambda>r. Inr (Some (Dated []))) (days 1) Unset [] (days 110) w_absent) =
     Inr (Some (Dated [])) \<and>
   calls (snd (get_data (\<lambda>r. Inr (Some (Dated []))) (days 1) Unset [] (days 110) w_absent)) =
     [\<lparr>arg_start = Unset, arg_kwargs = []\<rparr>] \<and>
   meta_file w_absent = Some (Meta (days 102)) \<and>
   meta_file (snd (get_data (\<lambda>r. Inr (Some (Dated []))) (days 1) Unset [] (days 110) w_absent)) =
     Some (Meta (days 102))"
  by (intro conjI; code_simp)

theorem last_checked_updates_witness:
  "disk_ok w_cached \<and> data_file w_cached = Some (Csv (Dated cached_rows)) \<and>
   \<not> df_empty (load_csv w_cached) \<and> cooldown_over (days 1) (days 110) w_cached \<and>
   backfill_due Unset (load_csv w_cached) = Inr False \<and>
   meta_file (snd (get_data (\<lambda>r. Inr (Some (Dated []))) (days 1) Unset [] (days 110) w_cached)) =
     Some (Meta (days 110)) \<and>
   fst (get_data (\<lambda>r. Inr (Some (Dated []))) (days 1) Unset [] (days 110) w_cached) =
     Inr (Some (Dated cached_rows)) \<and>
   data_file (snd (get_data (\<lambda>r. Inr (Some (Dated []))) (days 1) Unset [] (days 110) w_cached)) =
     Some (Csv (Dated cached_rows)) \<and>
   meta_file (snd (full_fetch (\<lambda>r. Inr (Some (Dated full_rows))) (Start (days 1)) [] (days 110)
     w_cached)) = Some (Meta (days 110))"
proof -
  have d: "disk_ok w_cached"
    by code_simp
  have ne: "\<not> df_empty (load_csv w_cached)"
    by code_simp
  have x: "cooldown_over (days 1) (days 110) w_cached"
    by code_simp
  have b: "backfill_due Unset (load_csv w_cached) = Inr False"
    by code_simp
  have l: "load_csv w_cached = Dated cached_rows"
    by code_simp
  have ok: "\<forall>req::request. \<exists>df. (Inr (Some (Dated [])) :: error + frame option) = Inr (Some df) \<and>
      df \<noteq> Unparsed"
    by simp
  have none: "\<forall>(req::request) df. (Inr (Some (Dated [])) :: error + frame option) = Inr (Some df) \<longrightarrow>
      df_empty df"
    by simp
  note t1 = last_checked_updates [OF d, of "Csv (Dated cached_rows)" "days 1" "days 110" Unset
      "\<lambda>r. Inr (Some (Dated []))" "[]"]
  note t2 = last_checked_updates [OF d, of "Csv (Dated cached_rows)" "days 1" "days 110"
      "Start (days 1)" "\<lambda>r. Inr (Some (Dated full_rows))" "[]"]
  from t1 data_file_cached ne x b ok none
  have r1: "meta_file (snd (get_data (\<lambda>r. Inr (Some (Dated []))) (days 1) Unset [] (days 110)
        w_cached)) = Some (Meta (days 110))"
    and r2: "fst (get_data (\<lambda>r. Inr (Some (Dated []))) (days 1) Unset [] (days 110) w_cached) =
        Inr (Some (load_csv w_cached))"
    and r3: "data_file (snd (get_data (\<lambda>r. Inr (Some (Dated []))) (days 1) Unset [] (days 110)
        w_cached)) = data_file w_cached"
    by blast+
  have fr: "\<not> df_empty (Dated full_rows)"
    by code_simp
  from t2 fr
  have r4: "meta_file (snd (full_fetch (\<lambda>r. Inr (Some (Dated full_rows))) (Start (days 1)) []
      (days 110) w_cached)) = Some (Meta (days 110))"
    by simp
  show ?thesis
    using d data_file_cached ne x b r1 r2 r3 r4 by (simp only: l) blast
qed

section \<open>Recovery from the hub\<close>

lemma pull_recovers:
  assumes "data_file w = None" and "hub_ok w" and "disk_ok w" and "hub_data w = Some b"
  shows "get_data l ci sd kw now w = from_cache l ci sd kw now (recovered w)"
proof -
  have p: "pull_from_hub_data w = (True, w\<lparr>data_file := Some b\<rparr>)"
    using assms by (simp add: pull_from_hub_data_def hf_hub_download_data_def)
  have m: "snd (pull_from_hub_meta (w\<lparr>data_file := Some b\<rparr>)) = recovered w"
    using assms
    by (cases "hub_meta w")
      (simp_all add: pull_from_hub_meta_def hf_hub_download_meta_def recovered_def)
  show ?thesis
    using assms(1) by (simp add: get_data_def p m)
qed

text \<open>
  Claim C8, as amended. When there is no local data file and the hub delivers a data file
  that loads to a non-empty frame, \<^verbatim>\<open>get_data\<close> goes on exactly as if the recovered
  data file and sidecar had been local. While the check interval, counted from the
  recovered \<^verbatim>\<open>last_checked\<close>, has not passed, it returns the recovered frame and makes no
  request to the loader.
\<close>

theorem recovered_cache:
  assumes "data_file w = None" and "hub_ok w" and "disk_ok w"
    and "hub_data w = Some (Csv df)" and "\<not> df_empty df" and "df \<noteq> Unparsed"
  shows "get_data loader ci sd kw now w = get_data loader ci sd kw now (recovered w) \<and>
         load_csv (recovered w) = df \<and>
         calls (recovered w) = calls w \<and>
         (in_cooldown ci now (recovered w) \<longrightarrow>
            get_data loader ci sd kw now w = (Inr (Some df), recovered w))"
proof -
  have f: "data_file (recovered w) = Some (Csv df)"
    using assms(4) by (simp add: recovered_def)
  have l: "load_csv (recovered w) = df"
    using f assms(6) by (rule load_csv_Csv)
  have g: "get_data loader ci sd kw now w = from_cache loader ci sd kw now (recovered w)"
    using assms(1-4) by (rule pull_recovers)
  have hit: "in_cooldown ci now (recovered w) \<Longrightarrow>
      from_cache loader ci sd kw now (recovered w) = (Inr (Some df), recovered w)"
    using assms(5) by (simp add: from_cache_in_cooldown l)
  have k: "calls (recovered w) = calls w"
    by (simp add: recovered_def)
  show ?thesis
    using hit l k by (simp add: g get_data_present [OF f])
qed

text \<open>
  Claim C8 as stated fails when the recovered sidecar is older than the check interval:
  the recovered cache is refreshed like any other, the loader is asked, and the frame
  returned is the merged one.
\<close>

theorem recovered_cache_is_refreshed:
  "data_file w_hub = None \<and> hub_data w_hub = Some (Csv (Dated cached_rows)) \<and>
   calls (snd (get_data (\<lambda>r. Inr (Some (Dated new_rows))) (days 1) Unset [] (days 110) w_hub)) =
     [\<lparr>arg_start = Start (days 102), arg_kwargs = []\<rparr>] \<and>
   fst (get_data (\<lambda>r. Inr (Some (Dated new_rows))) (days 1) Unset [] (days 110) w_hub) =
     Inr (Some (Dated [(Some (days 100), 10), (Some (days 101), 99), (Some (days 102), 12)]))"
  by (intro conjI; code_simp)

theorem recovered_cache_witness:
  "data_file w_hub = None \<and> hub_ok w_hub \<and> disk_ok w_hub \<and>
   hub_data w_hub = Some (Csv (Dated cached_rows)) \<and> \<not> df_empty (Dated cached_rows) \<and>
   in_cooldown (days 7) (days 103) (recovered w_hub) \<and>
   get_data (\<lambda>r. Inr (Some (Dated new_rows))) (days 7) Unset [] (days 103) w_hub =
     (Inr (Some (Dated cached_rows)), recovered w_hub) \<and>
   calls (recovered w_hub) = [] \<and>
   data_file (recovered w_hub) = Some (Csv (Dated cached_rows)) \<and>
   meta_file (recovered w_hub) = Some (Meta (days 102))"
proof -
  have a: "data_file w_hub = None" and b: "hub_ok w_hub" and c: "disk_ok w_hub"
    and d: "hub_data w_hub = Some (Csv (Dated cached_rows))"
    and e: "\<not> df_empty (Dated cached_rows)"
    by code_simp+
  have f: "Dated cached_rows \<noteq> Unparsed"
    by simp
  have x: "in_cooldown (days 7) (days 103) (recovered w_hub)"
    by code_simp
  have k: "calls w_hub = []"
    by code_simp
  have r: "data_file (recovered w_hub) = Some (Csv (Dated cached_rows))"
    "meta_file (recovered w_hub) = Some (Meta (days 102))"
    by code_simp+
  note t = recovered_cache [OF a b c d e f, of "\<lambda>r. Inr (Some (Dated new_rows))" "days 7" Unset "[]"
      "days 103"]
  from t x
  have g: "get_data (\<lambda>r. Inr (Some (Dated new_rows))) (days 7) Unset [] (days 103) w_hub =
     (Inr (Some (Dated cached_rows)), recovered w_hub)"
    by blast
  from t k have k': "calls (recovered w_hub) = []"
    by simp
  show ?thesis
    using a b c d e x g k' r by blast
qed

section \<open>Well-formed frames\<close>


lemma well_formed_empty: "df_empty df \<Longrightarrow> well_formed df"
  by (cases df) simp_all





lemma load_csv_calls [simp]: "load_csv (w\<lparr>calls := c\<rparr>) = load_csv w"
  by (simp add: load_csv_def read_csv_def)











section \<open>Failures\<close>

text \<open>
  Three places of \<^verbatim>\<open>get_data\<close> are outside every handler: the calls of
  \<^verbatim>\<open>_fetch_and_save\<close> on lines 36 and 42, which raise on a keyword argument named
  \<^verbatim>\<open>meta_path\<close>, and line 48, which raises on a \<^verbatim>\<open>last_checked\<close> with a UTC offset and on
  a check interval that \<^verbatim>\<open>timedelta\<close> cannot hold. An exception reaches the caller from
  these and from nowhere else.
\<close>

lemma cooldown_check_raises:
  assumes "cooldown_check ci n w = Inl e"
  shows "timedelta_days ci = Inl e \<or> (\<exists>t. meta_file w = Some (MetaAware t))"
proof (cases "meta_file w")
  case None
  with assms show ?thesis
    by (simp add: cooldown_check_def get_last_checked_def split: sum.splits)
next
  case (Some m)
  with assms show ?thesis
    by (cases m) (simp_all add: cooldown_check_def get_last_checked_def split: sum.splits)
qed

lemma from_cache_raises:
  assumes "fst (from_cache l ci sd kw n w) = Inl e"
  shows "''meta_path'' \<in> set (map fst kw) \<or> timedelta_days ci = Inl e \<or>
         (\<exists>t. meta_file w = Some (MetaAware t))"
proof (cases "df_empty (load_csv w)")
  case True
  with assms show ?thesis
    by (simp add: from_cache_def full_fetch_def case_prod_beta split: if_splits)
next
  case False
  show ?thesis
  proof (cases "cooldown_check ci n w")
    case (Inl e')
    with assms False have "e' = e"
      by (simp add: from_cache_def)
    with Inl show ?thesis
      using cooldown_check_raises by blast
  next
    case (Inr inside)
    with assms False show ?thesis
      by (cases inside; cases "refresh l sd kw n (load_csv w) w")
        (auto simp: from_cache_def split: sum.splits)
  qed
qed

lemma get_data_raises_only:
  assumes "fst (get_data l ci sd kw n w) = Inl e"
  shows "''meta_path'' \<in> set (map fst kw) \<or> timedelta_days ci = Inl e \<or>
         (\<exists>t. meta_file w = Some (MetaAware t)) \<or> (\<exists>t. hub_meta w = Some (MetaAware t))"
proof (cases "data_file w")
  case (Some b)
  with assms have "fst (from_cache l ci sd kw n w) = Inl e"
    by (simp add: get_data_present)
  then show ?thesis
    using from_cache_raises by blast
next
  case None
  show ?thesis
  proof (cases "fst (pull_from_hub_data w)")
    case False
    then have "pull_from_hub_data w = (False, w)"
      by (auto simp: pull_from_hub_data_def split: sum.splits)
    with assms None show ?thesis
      by (simp add: get_data_def full_fetch_def case_prod_beta split: if_splits)
  next
    case True
    then obtain b where h: "hub_ok w" "disk_ok w" "hub_data w = Some b"
      by (auto simp: pull_from_hub_data_def hf_hub_download_data_def
          split: if_splits option.splits)
    have "get_data l ci sd kw n w = from_cache l ci sd kw n (recovered w)"
      using None h by (rule pull_recovers)
    with assms have "fst (from_cache l ci sd kw n (recovered w)) = Inl e"
      by simp
    then have "''meta_path'' \<in> set (map fst kw) \<or> timedelta_days ci = Inl e \<or>
        (\<exists>t. meta_file (recovered w) = Some (MetaAware t))"
      by (rule from_cache_raises)
    then show ?thesis
      by (auto simp: recovered_def split: option.splits)
  qed
qed

lemma get_data_raises_outside_try:
  "fst (get_data (\<lambda>r. Inr (Some (Dated full_rows))) (days 1) Unset [(''meta_path'', ''x'')]
     (days 110) w_absent) = Inl TypeError \<and>
   fst (get_data (\<lambda>r. Inr (Some (Dated full_rows))) (days 1) Unset [] (days 110)
     (w_cached\<lparr>meta_file := Some (MetaAware (days 102))\<rparr>)) = Inl TypeError \<and>
   fst (get_data (\<lambda>r. Inr (Some (Dated full_rows))) (days 1000000000) Unset [] (days 110)
     w_cached) = Inl OverflowError"
  by (intro conjI; code_simp)

lemma refresh_error_keeps_files:
  assumes "fst (refresh l s k n d w) = Inl e"
  shows "meta_file (snd (refresh l s k n d w)) = meta_file w \<and>
         data_file (snd (refresh l s k n d w)) = data_file w"
proof -
  have t: "fst (touch d n w) = Inl e \<Longrightarrow> snd (touch d n w) = w" for e
    by (simp add: touch_eq split: if_splits)
  have i: "fst (incremental l k n d mx w) = Inl e \<Longrightarrow>
      meta_file (snd (incremental l k n d mx w)) = meta_file w \<and>
      data_file (snd (incremental l k n d mx w)) = data_file w" for mx e
    using t
    by (auto simp: incremental_def Let_def fetch_data_def update_meta_def
        split: if_splits sum.splits option.splits)
  have f: "fst (full_fetch l s k n w) = Inl e \<Longrightarrow> snd (full_fetch l s k n w) = w" for e
    by (simp add: full_fetch_def case_prod_beta split: if_splits)
  show ?thesis
    using assms t i f
    by (auto simp: refresh_def Let_def split: sum.splits bool.splits option.splits if_splits)
qed

text \<open>
  An exception inside the \<^verbatim>\<open>try\<close> block is answered with the cached frame, and neither
  the sidecar nor the data file has been written by then.
\<close>

lemma failed_refresh_returns_cache:
  assumes "data_file w = Some b" and "\<not> df_empty (load_csv w)" and "cooldown_over ci now w"
    and "fst (refresh l sd kw now (load_csv w) w) = Inl e"
  shows "fst (get_data l ci sd kw now w) = Inr (Some (load_csv w)) \<and>
         meta_file (snd (get_data l ci sd kw now w)) = meta_file w \<and>
         data_file (snd (get_data l ci sd kw now w)) = data_file w"
  using assms refresh_error_keeps_files [OF assms(4)]
  by (simp add: get_data_present from_cache_expired case_prod_beta)

text \<open>
  Claim C3. An exception during the refresh is to give back the cached frame. For the
  incremental path this holds (lemma \<open>failed_refresh_returns_cache\<close>). In the backfill
  branch it does not: line 66 returns the result of \<^verbatim>\<open>_fetch_and_save\<close>, whose own
  handler has already turned the loader's exception into \<^verbatim>\<open>pd.DataFrame()\<close>, so the
  handler of line 106 never sees it. Whenever the cached minimum date lies more than five
  days after the requested start, the check interval has passed and the loader raises
  (the call having no keyword argument named \<^verbatim>\<open>meta_path\<close>, on which line 66 itself would
  raise), \<^verbatim>\<open>get_data\<close> returns the empty frame, not the cached one; the sidecar and the
  data file stay as they were.
\<close>

theorem failed_backfill_returns_empty:
  assumes "data_file w = Some (Csv (Dated cached))" and "date_min (Dated cached) = Some mn"
    and "mn > s + days 5" and "cooldown_over ci now w"
    and "loader \<lparr>arg_start = Start s, arg_kwargs = kw\<rparr> = Inl e"
    and "''meta_path'' \<notin> set (map fst kw)"
  shows "fst (get_data loader ci (Start s) kw now w) = Inr (Some DataFrame) \<and>
         load_csv w = Dated cached \<and> Dated cached \<noteq> DataFrame \<and>
         meta_file (snd (get_data loader ci (Start s) kw now w)) = meta_file w \<and>
         data_file (snd (get_data loader ci (Start s) kw now w)) = data_file w"
proof -
  have l: "load_csv w = Dated cached"
    using assms(1) by (simp add: load_csv_Csv)
  have ne: "\<not> df_empty (load_csv w)"
    using date_min_nonempty [OF assms(2)] by (simp add: l)
  have b: "backfill_due (Start s) (Dated cached) = Inr True"
    using assms(2,3) by (simp add: backfill_due_Start)
  have g: "get_data loader ci (Start s) kw now w = full_fetch loader (Start s) kw now w"
    using ne b assms(4,6)
    by (simp add: get_data_present [OF assms(1)] from_cache_expired l refresh_backfill
        full_fetch_def case_prod_beta)
  have f: "full_fetch loader (Start s) kw now w =
      (Inr (Some DataFrame), w\<lparr>calls := calls w @ [\<lparr>arg_start = Start s, arg_kwargs = kw\<rparr>]\<rparr>)"
    using assms(5,6) by (simp add: full_fetch_def fetch_and_save_def fetch_data_def)
  have c: "Dated cached \<noteq> DataFrame"
    by (simp add: DataFrame_def)
  show ?thesis
    by (simp add: g f l c)
qed

theorem failed_backfill_returns_empty_witness:
  "data_file w_cached = Some (Csv (Dated cached_rows)) \<and>
   date_min (Dated cached_rows) = Some (days 100) \<and> days 100 > days 1 + days 5 \<and>
   cooldown_over (days 1) (days 110) w_cached \<and>
   load_csv w_cached = Dated cached_rows \<and>
   fst (get_data (\<lambda>r. Inl ConnectionError) (days 1) (Start (days 1)) [] (days 110) w_cached) =
     Inr (Some DataFrame) \<and>
   meta_file (snd (get_data (\<lambda>r. Inl ConnectionError) (days 1) (Start (days 1)) [] (days 110)
     w_cached)) = meta_file w_cached"
proof -
  have far: "days 100 > days 1 + days 5"
    by code_simp
  have x: "cooldown_over (days 1) (days 110) w_cached"
    by code_simp
  have nk: "''meta_path'' \<notin> set (map fst ([] :: (string \<times> string) list))"
    by simp
  note t = failed_backfill_returns_empty [where loader = "\<lambda>r. Inl ConnectionError"
      and kw = "[]" and e = ConnectionError, OF data_file_cached date_min_cached far x refl nk]
  show ?thesis
    using t data_file_cached date_min_cached far x by blast
qed

text \<open>
  Claim C1. \<^verbatim>\<open>get_data\<close> is to return the best frame known locally whatever goes wrong.
  With a non-empty cache, a requested start that makes a backfill due, and a loader that
  raises or returns an empty frame, it returns the empty frame while the data file still
  holds the cached rows. With no data file, no copy in the hub and a loader that returns
  \<^verbatim>\<open>None\<close>, it returns \<^verbatim>\<open>None\<close>, which is no frame at all. (Exceptions reach the caller
  as well, from the three places named above: lemma \<open>get_data_raises_outside_try\<close>.)
\<close>

theorem get_data_drops_cache_or_returns_none:
  "load_csv w_cached = Dated cached_rows \<and>
   fst (get_data (\<lambda>r. Inl ConnectionError) (days 1) (Start (days 1)) [] (days 110) w_cached) =
     Inr (Some (Plain [])) \<and>
   data_file (snd (get_data (\<lambda>r. Inl ConnectionError) (days 1) (Start (days 1)) [] (days 110)
     w_cached)) = Some (Csv (Dated cached_rows)) \<and>
   fst (get_data (\<lambda>r. Inr (Some (Plain []))) (days 1) (Start (days 1)) [] (days 110) w_cached) =
     Inr (Some (Plain [])) \<and>
   data_file w_absent = None \<and> hub_data w_absent = None \<and>
   fst (get_data (\<lambda>r. Inr None) (days 1) Unset [] (days 110) w_absent) = Inr None"
  by (intro conjI; code_simp)

end
